theory Spec2Isabelle
  imports Complex_Main
begin

section \<open>Colour arithmetic of the theme generator\<close>

text \<open>
  The definitions follow \<^verbatim>\<open>src/lib/theme-generator.ts\<close>. A JavaScript string is a
  \<^typ>\<open>string\<close>, one \<^typ>\<open>char\<close> per code unit (code units below 256). A JavaScript
  number is a \<^typ>\<open>real\<close>: every finite double is a real and \<^verbatim>\<open>Math.round\<close>,
  comparison and integer formatting are exact on it, while products, quotients and
  \<^verbatim>\<open>Math.pow\<close> are taken without the rounding error of double arithmetic. Where
  that error decides what the code does, in the loop variable of the darker loop, it is
  written into the model.
\<close>

subsection \<open>Hexadecimal colours\<close>

datatype rgb = RGB (r_of: nat) (g_of: nat) (b_of: nat)

text \<open>The character class \<^verbatim>\<open>[a-f\d]\<close> under the flag \<^verbatim>\<open>i\<close>.\<close>

definition isHexDigit :: "char \<Rightarrow> bool" where
  "isHexDigit c \<longleftrightarrow> c \<in> set ''0123456789abcdefABCDEF''"

definition hexValue :: "char \<Rightarrow> nat" where
  "hexValue c =
     (let n = of_char c :: nat in
      if 48 \<le> n \<and> n \<le> 57 then n - 48
      else if 97 \<le> n \<and> n \<le> 102 then n - 87
      else n - 55)"

text \<open>\<^verbatim>\<open>parseInt(s, 16)\<close> on a string of hexadecimal digits.\<close>

definition parseInt16 :: "string \<Rightarrow> nat" where
  "parseInt16 s = foldl (\<lambda>acc c. 16 * acc + hexValue c) 0 s"

text \<open>
  \<^verbatim>\<open>/^#?([a-f\d]{2})([a-f\d]{2})([a-f\d]{2})$/i.exec(hex)\<close>: an optional
  \<^verbatim>\<open>#\<close>, then exactly six hexadecimal digits; \<open>None\<close> is the \<^verbatim>\<open>null\<close> result.
\<close>

definition hexToRgb :: "string \<Rightarrow> rgb option" where
  "hexToRgb hex =
     (let body = (case hex of [] \<Rightarrow> [] | c # cs \<Rightarrow> if c = CHR ''#'' then cs else hex) in
      if length body = 6 \<and> list_all isHexDigit body
      then Some (RGB (parseInt16 (take 2 body))
                     (parseInt16 (take 2 (drop 2 body)))
                     (parseInt16 (drop 4 body)))
      else None)"

text \<open>\<^verbatim>\<open>Math.round\<close>: the nearest integer, a tie going up.\<close>

definition mathRound :: "real \<Rightarrow> int" where
  "mathRound x = \<lfloor>x + 1 / 2\<rfloor>"

definition lowerHexDigits :: string where
  "lowerHexDigits = ''0123456789abcdef''"

definition hexChar :: "nat \<Rightarrow> char" where
  "hexChar d = lowerHexDigits ! d"

fun natToString16 :: "nat \<Rightarrow> string" where
  "natToString16 n =
     (if n < 16 then [hexChar n] else natToString16 (n div 16) @ [hexChar (n mod 16)])"

declare natToString16.simps [simp del]

text \<open>\<^verbatim>\<open>Number.prototype.toString(16)\<close> on an integer: a sign, then the digits.\<close>

definition toString16 :: "int \<Rightarrow> string" where
  "toString16 i = (if i < 0 then CHR ''-'' # natToString16 (nat (- i)) else natToString16 (nat i))"

definition channelHex :: "real \<Rightarrow> string" where
  "channelHex x =
     (let hex = toString16 (mathRound x) in
      if length hex = 1 then CHR ''0'' # hex else hex)"

definition rgbToHex :: "real \<Rightarrow> real \<Rightarrow> real \<Rightarrow> string" where
  "rgbToHex r g b = CHR ''#'' # concat (map channelHex [r, g, b])"

subsection \<open>Luminance and contrast\<close>

definition channelLuminance :: "nat \<Rightarrow> real" where
  "channelLuminance c0 =
     (let c = real c0 / 255 in
      if c \<le> 0.03928 then c / 12.92 else ((c + 0.055) / 1.055) powr 2.4)"

definition getLuminance :: "string \<Rightarrow> real" where
  "getLuminance hex =
     (case hexToRgb hex of
        None \<Rightarrow> 0
      | Some (RGB r g b) \<Rightarrow>
          0.2126 * channelLuminance r + 0.7152 * channelLuminance g
            + 0.0722 * channelLuminance b)"

definition getContrastRatio :: "string \<Rightarrow> string \<Rightarrow> real" where
  "getContrastRatio color1 color2 =
     (let lum1 = getLuminance color1;
          lum2 = getLuminance color2;
          brightest = max lum1 lum2;
          darkest = min lum1 lum2
      in (brightest + 0.05) / (darkest + 0.05))"

subsection \<open>Contrast correction\<close>

text \<open>
  The two search loops of \<^verbatim>\<open>adjustLightnessForContrast\<close>, one function each; the
  loop variable \<open>factor\<close> is the last argument and \<open>None\<close> means that the loop ran to
  its end without returning.

  The loop variable is a double. In the darker loop the repeated \<^verbatim>\<open>factor -= 0.1\<close>
  takes it from 0.9 to 0.8, 0.7000000000000001, 0.6000000000000001, 0.5000000000000001,
  0.40000000000000013, 0.30000000000000016, 0.20000000000000015, 0.10000000000000014 and then
  to 1.4e-16: nine values pass the guard \<^verbatim>\<open>factor > 0.1\<close>, the ninth because the
  subtractions have left it above the double 0.1. The model counts in exact tenths, from
  0.9 down to 0.1, and its guard lets the tenth 0.1 pass, which stands for the ninth value.
  Each of the nine doubles lies above its tenth by less than 2e-16 and \<^verbatim>\<open>Math.round\<close>
  takes a tie upwards, so that on the channels 0 to 255 the rounded products are those of
  the tenths. In the lighter loop the variable runs from 1.1 to 2.9000000000000017 and
  stops at 3.0000000000000018: nineteen values, each above its tenth by less than 2e-15,
  as in the model.
\<close>

function darkerLoop :: "nat \<Rightarrow> nat \<Rightarrow> nat \<Rightarrow> string \<Rightarrow> real \<Rightarrow> real \<Rightarrow> string option" where
  "darkerLoop r g b background targetRatio factor =
     (if factor \<ge> 0.1 then
        (let newR = mathRound (real r * factor);
             newG = mathRound (real g * factor);
             newB = mathRound (real b * factor);
             newColor = rgbToHex (of_int newR) (of_int newG) (of_int newB)
         in if getContrastRatio newColor background \<ge> targetRatio then Some newColor
            else darkerLoop r g b background targetRatio (factor - 0.1))
      else None)"
  by pat_completeness auto
termination
  apply (relation "measure (\<lambda>(r, g, b, background, targetRatio, factor). nat \<lceil>factor * 10\<rceil>)")
   apply simp
  apply (simp only: in_measure prod.case)
  subgoal for r g b background targetRatio factor
  proof -
    assume a: "1 / 10 \<le> factor"
    have e: "(factor - 1 / 10) * 10 = factor * 10 - 1"
      by (simp add: algebra_simps)
    have step: "nat \<lceil>x - 1\<rceil> < nat \<lceil>x\<rceil>" if "0 < x" for x :: real
    proof -
      have "0 < \<lceil>x\<rceil>"
        using that by (simp add: less_ceiling_iff)
      then show ?thesis
        by simp
    qed
    have "0 < factor * 10"
      using a by simp
    then show ?thesis
      unfolding e by (rule step)
  qed
  done

declare darkerLoop.simps [simp del]

function lighterLoop :: "nat \<Rightarrow> nat \<Rightarrow> nat \<Rightarrow> string \<Rightarrow> real \<Rightarrow> real \<Rightarrow> string option" where
  "lighterLoop r g b background targetRatio factor =
     (if factor < 3 then
        (let newR = min 255 (mathRound (real r * factor));
             newG = min 255 (mathRound (real g * factor));
             newB = min 255 (mathRound (real b * factor));
             newColor = rgbToHex (of_int newR) (of_int newG) (of_int newB)
         in if getContrastRatio newColor background \<ge> targetRatio then Some newColor
            else lighterLoop r g b background targetRatio (factor + 0.1))
      else None)"
  by pat_completeness auto
termination
  apply (relation "measure (\<lambda>(r, g, b, background, targetRatio, factor). nat \<lceil>(3 - factor) * 10\<rceil>)")
   apply simp
  apply (simp only: in_measure prod.case)
  subgoal for r g b background targetRatio factor
  proof -
    assume a: "factor < 3"
    have e: "(3 - (factor + 1 / 10)) * 10 = (3 - factor) * 10 - 1"
      by (simp add: algebra_simps)
    have step: "nat \<lceil>x - 1\<rceil> < nat \<lceil>x\<rceil>" if "0 < x" for x :: real
    proof -
      have "0 < \<lceil>x\<rceil>"
        using that by (simp add: less_ceiling_iff)
      then show ?thesis
        by simp
    qed
    have "0 < (3 - factor) * 10"
      using a by simp
    then show ?thesis
      unfolding e by (rule step)
  qed
  done

declare lighterLoop.simps [simp del]

definition adjustLightnessForContrast :: "string \<Rightarrow> string \<Rightarrow> real \<Rightarrow> string" where
  "adjustLightnessForContrast col background targetRatio =
     (let currentRatio = getContrastRatio col background in
      if currentRatio \<ge> targetRatio then col
      else case hexToRgb col of
        None \<Rightarrow> col
      | Some (RGB r g b) \<Rightarrow>
          (let bgLuminance = getLuminance background in
           case darkerLoop r g b background targetRatio 0.9 of
             Some newColor \<Rightarrow> newColor
           | None \<Rightarrow>
               (case lighterLoop r g b background targetRatio 1.1 of
                  Some newColor \<Rightarrow> newColor
                | None \<Rightarrow> if bgLuminance > 0.5 then ''#000000'' else ''#ffffff'')))"

section \<open>Palette processing\<close>

datatype ColorSource = User | LogoAi | Manual

text \<open>
  \<^verbatim>\<open>ColorToken\<close> of \<^verbatim>\<open>types\<close>; the optional fields are options and a
  condition \<^verbatim>\<open>token.locked\<close> holds when the field is present and true.
\<close>

record ColorToken =
  slug :: string
  color :: string
  locked :: "bool option"
  source :: "ColorSource option"

definition isLocked :: "ColorToken \<Rightarrow> bool" where
  "isLocked token \<longleftrightarrow> locked token = Some True"

definition harmonizeColors :: "ColorToken list \<Rightarrow> string \<Rightarrow> ColorToken list" where
  "harmonizeColors pal primaryColor =
     map (\<lambda>token.
        if isLocked token then token
        else if slug token = ''primary'' then token\<lparr>color := primaryColor\<rparr>
        else case hexToRgb (color token) of
          None \<Rightarrow> token
        | Some rgb \<Rightarrow>
            (case hexToRgb primaryColor of
               None \<Rightarrow> token
             | Some primaryRgb \<Rightarrow>
                 (let newR = mathRound (real (r_of rgb) * 0.9 + real (r_of primaryRgb) * 0.1);
                      newG = mathRound (real (g_of rgb) * 0.9 + real (g_of primaryRgb) * 0.1);
                      newB = mathRound (real (b_of rgb) * 0.9 + real (b_of primaryRgb) * 0.1)
                  in token\<lparr>color := rgbToHex (of_int newR) (of_int newG) (of_int newB)\<rparr>)))
       pal"

text \<open>\<^verbatim>\<open>palette.find(p => p.slug === s)?.color || dflt\<close>, which the source writes four times.\<close>

definition colorOfSlug :: "ColorToken list \<Rightarrow> string \<Rightarrow> string \<Rightarrow> string" where
  "colorOfSlug pal s dflt =
     (case find (\<lambda>p. slug p = s) pal of
        None \<Rightarrow> dflt
      | Some p \<Rightarrow> if color p \<noteq> [] then color p else dflt)"

text \<open>\<^verbatim>\<open>String.prototype.includes\<close>.\<close>

fun includesStr :: "string \<Rightarrow> string \<Rightarrow> bool" where
  "includesStr [] sub \<longleftrightarrow> sub = []"
| "includesStr (c # cs) sub \<longleftrightarrow> take (length sub) (c # cs) = sub \<or> includesStr cs sub"

definition validateAndFixContrasts :: "ColorToken list \<Rightarrow> ColorToken list" where
  "validateAndFixContrasts pal =
     (let background = colorOfSlug pal ''background'' ''#ffffff'' in
      map (\<lambda>token.
        if isLocked token then token
        else if slug token = ''text'' \<or> includesStr (slug token) ''text'' then
          (let adjustedColor = adjustLightnessForContrast (color token) background 4.5
           in token\<lparr>color := adjustedColor\<rparr>)
        else token)
       pal)"

section \<open>The project and the generated theme\<close>

text \<open>
  The fields of \<^verbatim>\<open>Project\<close> and its relations that the generator reads. A field that
  can be missing, \<^verbatim>\<open>null\<close> or \<^verbatim>\<open>undefined\<close> is an option, so that the
  source's \<^verbatim>\<open>?.\<close> and \<^verbatim>\<open>||\<close> are case distinctions.
\<close>

record FontConfig =
  family :: string
  weights :: "int list"
  fallback :: string

record Brand =
  primary :: "string option"
  palette :: "ColorToken list option"
  headingFont :: "FontConfig option"
  bodyFont :: "FontConfig option"

record Assets =
  heroPath :: "string option"

record Benefit =
  title :: string
  description :: string

record Contact =
  phone :: "string option"
  whatsapp :: "string option"
  address :: "string option"

record Content =
  headline :: "string option"
  benefits :: "Benefit list option"
  cta :: "string option"
  contact :: "Contact option"

record Layout =
  sections :: "string list option"

record Project =
  name :: string
  brand :: "Brand option"
  assets :: "Assets option"
  content :: "Content option"
  layout :: "Layout option"

text \<open>
  A value that \<^verbatim>\<open>JSON.parse\<close> can return. The theme that is generated holds such
  values: on the path that merges an outside response its three fields are whatever that
  response held.
\<close>

datatype json =
    JNull
  | JBool bool
  | JNum real
  | JStr string
  | JArr "json list"
  | JObj "(string \<times> json) list"

record GeneratedTheme =
  themeJson :: json
  patterns :: json
  templateFront :: json

datatype BlockPattern = BlockPattern (pattern_slug: string) (pattern_title: string) (html: string)

definition patternJson :: "BlockPattern \<Rightarrow> json" where
  "patternJson p =
     JObj [(''slug'', JStr (pattern_slug p)), (''title'', JStr (pattern_title p)),
           (''html'', JStr (html p))]"

text \<open>\<^verbatim>\<open>x || dflt\<close> on a string that may be missing: the empty string is falsy too.\<close>

definition orDefault :: "string option \<Rightarrow> string \<Rightarrow> string" where
  "orDefault x dflt = (case x of None \<Rightarrow> dflt | Some s \<Rightarrow> if s \<noteq> [] then s else dflt)"

text \<open>\<^verbatim>\<open>x || dflt\<close> on an array that may be missing: every array is truthy, the empty one too.\<close>

definition orDefaultList :: "'a list option \<Rightarrow> 'a list \<Rightarrow> 'a list" where
  "orDefaultList x dflt = (case x of None \<Rightarrow> dflt | Some xs \<Rightarrow> xs)"

text \<open>\<^verbatim>\<open>Array.prototype.join\<close> on strings.\<close>

fun joinWith :: "string \<Rightarrow> string list \<Rightarrow> string" where
  "joinWith sep [] = []"
| "joinWith sep [x] = x"
| "joinWith sep (x # y # ys) = x @ sep @ joinWith sep (y # ys)"

definition newline :: string where
  "newline = [CHR 0x0A]"

subsection \<open>Block patterns\<close>

text \<open>
  The six template literals of \<^verbatim>\<open>generateBlockPatterns\<close>, line by line; what the
  source interpolates is an argument.
\<close>

definition headerHtml :: "string" where
  \<open>headerHtml =
     joinWith newline
      [''<!-- wp:group {"layout":{"type":"flex","justifyContent":"space-between","flexWrap":"wrap"}} -->'',
       ''<div class="wp-block-group">'',
       ''  <!-- wp:site-logo {"width":120} /-->'',
       ''  <!-- wp:navigation {"overlayMenu":"mobile"} /-->'',
       ''</div>'',
       ''<!-- /wp:group -->'']\<close>

definition heroHtml :: "string \<Rightarrow> string \<Rightarrow> string \<Rightarrow> string \<Rightarrow> string" where
  \<open>heroHtml heroImage primaryColor headlineText ctaText =
     joinWith newline
      [''<!-- wp:cover {"url":"'' @ heroImage @ ''","dimRatio":30,"customOverlayColor":"'' @ primaryColor @ ''","minHeight":600,"contentPosition":"center center","isDark":false} -->'',
       ''<div class="wp-block-cover is-light" style="min-height:600px">'',
       ''  <span aria-hidden="true" class="wp-block-cover__background has-background-dim-30" style="background-color:'' @ primaryColor @ ''"></span>'',
       ''  '' @ (if heroImage \<noteq> [] then ''<img class="wp-block-cover__image-background" alt="" src="'' @ heroImage @ ''" data-object-fit="cover"/>'' else []),
       ''  <div class="wp-block-cover__inner-container">'',
       ''    <!-- wp:heading {"textAlign":"center","level":1,"fontSize":"xx-large"} -->'',
       ''    <h1 class="has-text-align-center has-xx-large-font-size">'' @ headlineText @ ''</h1>'',
       ''    <!-- /wp:heading -->'',
       ''    '',
       ''    <!-- wp:paragraph {"align":"center","fontSize":"large"} -->'',
       ''    <p class="has-text-align-center has-large-font-size">Transform your business with our innovative solutions</p>'',
       ''    <!-- /wp:paragraph -->'',
       ''    '',
       ''    <!-- wp:buttons {"layout":{"type":"flex","justifyContent":"center"}} -->'',
       ''    <div class="wp-block-buttons">'',
       ''      <!-- wp:button {"backgroundColor":"primary","textColor":"white","fontSize":"medium"} -->'',
       ''      <div class="wp-block-button has-medium-font-size">'',
       ''        <a class="wp-block-button__link has-white-color has-primary-background-color has-text-color has-background">'' @ ctaText @ ''</a>'',
       ''      </div>'',
       ''      <!-- /wp:button -->'',
       ''    </div>'',
       ''    <!-- /wp:buttons -->'',
       ''  </div>'',
       ''</div>'',
       ''<!-- /wp:cover -->'']\<close>

definition benefitColumn :: "Benefit \<Rightarrow> string" where
  \<open>benefitColumn benefit =
     joinWith newline
      ['''',
       ''    <!-- wp:column -->'',
       ''    <div class="wp-block-column">'',
       ''      <!-- wp:heading {"textAlign":"center","level":3} -->'',
       ''      <h3 class="has-text-align-center">'' @ title benefit @ ''</h3>'',
       ''      <!-- /wp:heading -->'',
       ''      '',
       ''      <!-- wp:paragraph {"align":"center"} -->'',
       ''      <p class="has-text-align-center">'' @ description benefit @ ''</p>'',
       ''      <!-- /wp:paragraph -->'',
       ''    </div>'',
       ''    <!-- /wp:column -->'',
       ''    '']\<close>

definition benefitsHtml :: "Benefit list \<Rightarrow> string" where
  \<open>benefitsHtml benefitList =
     joinWith newline
      [''<!-- wp:group {"style":{"spacing":{"padding":{"top":"80px","bottom":"80px"}}},"layout":{"type":"constrained"}} -->'',
       ''<div class="wp-block-group" style="padding-top:80px;padding-bottom:80px">'',
       ''  <!-- wp:heading {"textAlign":"center","fontSize":"x-large"} -->'',
       ''  <h2 class="has-text-align-center has-x-large-font-size">Why Choose Us</h2>'',
       ''  <!-- /wp:heading -->'',
       ''  '',
       ''  <!-- wp:columns {"style":{"spacing":{"margin":{"top":"40px"}}}} -->'',
       ''  <div class="wp-block-columns" style="margin-top:40px">'',
       ''    '' @ concat (map benefitColumn (take 3 benefitList)),
       ''  </div>'',
       ''  <!-- /wp:columns -->'',
       ''</div>'',
       ''<!-- /wp:group -->'']\<close>

definition aboutHtml :: "string" where
  \<open>aboutHtml =
     joinWith newline
      [''<!-- wp:group {"style":{"spacing":{"padding":{"top":"80px","bottom":"80px"}}},"backgroundColor":"secondary","layout":{"type":"constrained"}} -->'',
       ''<div class="wp-block-group has-secondary-background-color has-background" style="padding-top:80px;padding-bottom:80px">'',
       ''  <!-- wp:columns -->'',
       ''  <div class="wp-block-columns">'',
       ''    <!-- wp:column -->'',
       ''    <div class="wp-block-column">'',
       ''      <!-- wp:heading {"fontSize":"x-large"} -->'',
       ''      <h2 class="has-x-large-font-size">About Our Company</h2>'',
       ''      <!-- /wp:heading -->'',
       ''      '',
       ''      <!-- wp:paragraph -->'',
       ''      <p>We are dedicated to providing exceptional service and innovative solutions that help our clients achieve their goals. Our team of experts brings years of experience and a passion for excellence to every project.</p>'',
       ''      <!-- /wp:paragraph -->'',
       ''      '',
       ''      <!-- wp:paragraph -->'',
       ''      <p>Founded with the vision of making quality services accessible to businesses of all sizes, we continue to grow and evolve with the changing needs of our clients.</p>'',
       ''      <!-- /wp:paragraph -->'',
       ''    </div>'',
       ''    <!-- /wp:column -->'',
       ''    '',
       ''    <!-- wp:column -->'',
       ''    <div class="wp-block-column">'',
       ''      <!-- wp:image {"sizeSlug":"large"} -->'',
       ''      <figure class="wp-block-image size-large">'',
       ''        <img src="https://images.unsplash.com/photo-1560472354-b33ff0c44a43?w=600&h=400&fit=crop" alt="Our team"/>'',
       ''      </figure>'',
       ''      <!-- /wp:image -->'',
       ''    </div>'',
       ''    <!-- /wp:column -->'',
       ''  </div>'',
       ''  <!-- /wp:columns -->'',
       ''</div>'',
       ''<!-- /wp:group -->'']\<close>

definition contactHtml :: "string \<Rightarrow> string \<Rightarrow> string" where
  \<open>contactHtml phoneText addressText =
     joinWith newline
      [''<!-- wp:group {"style":{"spacing":{"padding":{"top":"80px","bottom":"80px"}}},"layout":{"type":"constrained"}} -->'',
       ''<div class="wp-block-group" style="padding-top:80px;padding-bottom:80px">'',
       ''  <!-- wp:heading {"textAlign":"center","fontSize":"x-large"} -->'',
       ''  <h2 class="has-text-align-center has-x-large-font-size">Get In Touch</h2>'',
       ''  <!-- /wp:heading -->'',
       ''  '',
       ''  <!-- wp:columns {"style":{"spacing":{"margin":{"top":"40px"}}}} -->'',
       ''  <div class="wp-block-columns" style="margin-top:40px">'',
       ''    <!-- wp:column -->'',
       ''    <div class="wp-block-column">'',
       ''      <!-- wp:paragraph {"align":"center"} -->'',
       ''      <p class="has-text-align-center"><strong>Phone:</strong> '' @ phoneText @ ''</p>'',
       ''      <!-- /wp:paragraph -->'',
       ''      '',
       ''      <!-- wp:paragraph {"align":"center"} -->'',
       ''      <p class="has-text-align-center"><strong>Email:</strong> hello@example.com</p>'',
       ''      <!-- /wp:paragraph -->'',
       ''      '',
       ''      <!-- wp:paragraph {"align":"center"} -->'',
       ''      <p class="has-text-align-center"><strong>Address:</strong> '' @ addressText @ ''</p>'',
       ''      <!-- /wp:paragraph -->'',
       ''    </div>'',
       ''    <!-- /wp:column -->'',
       ''    '',
       ''    <!-- wp:column -->'',
       ''    <div class="wp-block-column">'',
       ''      <!-- wp:buttons {"layout":{"type":"flex","justifyContent":"center"}} -->'',
       ''      <div class="wp-block-buttons">'',
       ''        <!-- wp:button {"backgroundColor":"primary","textColor":"white"} -->'',
       ''        <div class="wp-block-button">'',
       ''          <a class="wp-block-button__link has-white-color has-primary-background-color has-text-color has-background">Contact Us Today</a>'',
       ''        </div>'',
       ''        <!-- /wp:button -->'',
       ''      </div>'',
       ''      <!-- /wp:buttons -->'',
       ''    </div>'',
       ''    <!-- /wp:column -->'',
       ''  </div>'',
       ''  <!-- /wp:columns -->'',
       ''</div>'',
       ''<!-- /wp:group -->'']\<close>

definition footerHtml :: "string \<Rightarrow> string" where
  \<open>footerHtml projectName =
     joinWith newline
      [''<!-- wp:group {"style":{"spacing":{"padding":{"top":"40px","bottom":"40px"}}},"backgroundColor":"neutral","textColor":"white","layout":{"type":"constrained"}} -->'',
       ''<div class="wp-block-group has-white-color has-neutral-background-color has-text-color has-background" style="padding-top:40px;padding-bottom:40px">'',
       ''  <!-- wp:paragraph {"align":"center"} -->'',
       ''  <p class="has-text-align-center">'' @ [CHR 0xA9] @ '' 2024 '' @ projectName @ ''. All rights reserved.</p>'',
       ''  <!-- /wp:paragraph -->'',
       ''</div>'',
       ''<!-- /wp:group -->'']\<close>

definition defaultBenefits :: "Benefit list" where
  "defaultBenefits =
     [\<lparr>title = ''Fast Performance'', description = ''Optimized for speed and conversion''\<rparr>,
      \<lparr>title = ''Mobile First'', description = ''Responsive design that works everywhere''\<rparr>,
      \<lparr>title = ''SEO Ready'', description = ''Built with search engines in mind''\<rparr>]"

definition generateBlockPatterns :: "Project \<Rightarrow> ColorToken list \<Rightarrow> BlockPattern list" where
  "generateBlockPatterns project pal =
     (let headlineText = orDefault (Option.bind (content project) headline)
                           ''Welcome to Our Amazing Service'';
          ctaText = orDefault (Option.bind (content project) cta) ''Get Started Today'';
          benefitList = orDefaultList (Option.bind (content project) benefits) defaultBenefits;
          primaryColor = colorOfSlug pal ''primary'' ''#3b82f6'';
          heroImage = (case Option.bind (assets project) heroPath of
                         None \<Rightarrow> []
                       | Some p \<Rightarrow> if p \<noteq> [] then ''/uploads/'' @ p else []);
          phoneText = orDefault (Option.bind (Option.bind (content project) contact) phone)
                        ''+1 (555) 123-4567'';
          addressText = orDefault (Option.bind (Option.bind (content project) contact) address)
                          ''123 Business Street, City, State 12345''
      in [BlockPattern ''header'' ''Header'' headerHtml,
          BlockPattern ''hero'' ''Hero Section'' (heroHtml heroImage primaryColor headlineText ctaText),
          BlockPattern ''benefits'' ''Benefits Section'' (benefitsHtml benefitList),
          BlockPattern ''about'' ''About Section'' aboutHtml,
          BlockPattern ''contact'' ''Contact Section'' (contactHtml phoneText addressText),
          BlockPattern ''footer'' ''Footer'' (footerHtml (name project))])"

subsection \<open>The front-page template\<close>

text \<open>The properties that the object literal \<^verbatim>\<open>sectionMap\<close> has of its own.\<close>

definition sectionMap :: "(string \<times> string) list" where
  \<open>sectionMap =
     [(''header'', ''<!-- wp:template-part {"slug":"header","area":"header"} /-->''),
      (''hero'', ''<!-- wp:pattern {"slug":"hero"} /-->''),
      (''benefits'', ''<!-- wp:pattern {"slug":"benefits"} /-->''),
      (''about'', ''<!-- wp:pattern {"slug":"about"} /-->''),
      (''services'', ''<!-- wp:pattern {"slug":"services"} /-->''),
      (''contact'', ''<!-- wp:pattern {"slug":"contact"} /-->''),
      (''footer'', ''<!-- wp:template-part {"slug":"footer","area":"footer"} /-->'')]\<close>

text \<open>
  \<^verbatim>\<open>sectionMap[section]\<close> is a property read on a plain object, so a name that the
  object does not have itself is looked up in \<^verbatim>\<open>Object.prototype\<close>. These are the
  properties found there, each a function or an object and therefore truthy, with the text
  that \<^verbatim>\<open>join\<close> makes of its value.
\<close>

definition objectPrototype :: "(string \<times> string) list" where
  "objectPrototype =
     [(''constructor'', ''function Object() { [native code] }''),
      (''__defineGetter__'', ''function __defineGetter__() { [native code] }''),
      (''__defineSetter__'', ''function __defineSetter__() { [native code] }''),
      (''hasOwnProperty'', ''function hasOwnProperty() { [native code] }''),
      (''__lookupGetter__'', ''function __lookupGetter__() { [native code] }''),
      (''__lookupSetter__'', ''function __lookupSetter__() { [native code] }''),
      (''isPrototypeOf'', ''function isPrototypeOf() { [native code] }''),
      (''propertyIsEnumerable'', ''function propertyIsEnumerable() { [native code] }''),
      (''toString'', ''function toString() { [native code] }''),
      (''valueOf'', ''function valueOf() { [native code] }''),
      (''__proto__'', ''[object Object]''),
      (''toLocaleString'', ''function toLocaleString() { [native code] }'')]"

definition sectionReference :: "string \<Rightarrow> string" where
  \<open>sectionReference section =
     (case map_of sectionMap section of
        Some reference \<Rightarrow> reference
      | None \<Rightarrow>
          (case map_of objectPrototype section of
             Some inherited \<Rightarrow> inherited
           | None \<Rightarrow> ''<!-- wp:pattern {"slug":"'' @ section @ ''"} /-->''))\<close>

definition generateFrontPageTemplate :: "string list \<Rightarrow> string" where
  "generateFrontPageTemplate sectionNames = joinWith newline (map sectionReference sectionNames)"

subsection \<open>The deterministic path\<close>

definition fontSizeJson :: "string \<Rightarrow> string \<Rightarrow> string \<Rightarrow> json" where
  "fontSizeJson s sz nm = JObj [(''slug'', JStr s), (''size'', JStr sz), (''name'', JStr nm)]"

text \<open>
  \<^verbatim>\<open>String.prototype.toUpperCase\<close> belongs to the runtime, with the case tables of
  Unicode; it is the argument \<open>toUpperCase\<close>.
\<close>

definition generateWordPressTheme :: "(string \<Rightarrow> string) \<Rightarrow> Project \<Rightarrow> GeneratedTheme" where
  \<open>generateWordPressTheme toUpperCase project =
     (let pal0 = orDefaultList (Option.bind (brand project) palette) [];
          primaryColor = orDefault (Option.bind (brand project) primary) ''#3b82f6'';
          pal1 = harmonizeColors pal0 primaryColor;
          pal = validateAndFixContrasts pal1;
          theme = JObj
            [(''version'', JNum 2),
             (''settings'', JObj
               [(''appearanceTools'', JBool True),
                (''color'', JObj
                  [(''palette'', JArr (map (\<lambda>token. JObj
                      [(''slug'', JStr (slug token)),
                       (''name'', JStr (toUpperCase (take 1 (slug token)) @ drop 1 (slug token))),
                       (''color'', JStr (color token))]) pal))]),
                (''typography'', JObj
                  [(''fluid'', JBool True),
                   (''fontFamilies'', JArr
                     [JObj [(''slug'', JStr ''heading''),
                            (''name'', JStr (orDefault
                               (map_option family (Option.bind (brand project) headingFont))
                               ''Inter'')),
                            (''fontFamily'', JStr (orDefault
                               (map_option fallback (Option.bind (brand project) headingFont))
                               ''Inter, system-ui, sans-serif''))],
                      JObj [(''slug'', JStr ''body''),
                            (''name'', JStr (orDefault
                               (map_option family (Option.bind (brand project) bodyFont))
                               ''System UI'')),
                            (''fontFamily'', JStr (orDefault
                               (map_option fallback (Option.bind (brand project) bodyFont))
                               ''system-ui, -apple-system, sans-serif''))]]),
                   (''fontSizes'', JArr
                     [fontSizeJson ''small'' ''14px'' ''Small'',
                      fontSizeJson ''medium'' ''16px'' ''Medium'',
                      fontSizeJson ''large'' ''20px'' ''Large'',
                      fontSizeJson ''x-large'' ''32px'' ''Extra Large'',
                      fontSizeJson ''xx-large'' ''48px'' ''XX Large''])]),
                (''spacing'', JObj
                  [(''units'', JArr [JStr ''px'', JStr ''rem'', JStr ''%'', JStr ''vh'', JStr ''vw'']),
                   (''spacingScale'', JObj [(''steps'', JNum 7)])])]),
             (''styles'', JObj
               [(''color'', JObj
                  [(''background'', JStr (colorOfSlug pal ''background'' ''#ffffff'')),
                   (''text'', JStr (colorOfSlug pal ''text'' ''#1f2937''))]),
                (''typography'', JObj
                  [(''fontFamily'', JStr ''var(--wp--preset--font-family--body)''),
                   (''fontSize'', JStr ''var(--wp--preset--font-size--medium)'')])])];
          blockPatterns = generateBlockPatterns project pal;
          sectionNames = orDefaultList (Option.bind (layout project) sections)
                           [''header'', ''hero'', ''benefits'', ''about'', ''contact'', ''footer''];
          front = generateFrontPageTemplate sectionNames
      in \<lparr>themeJson = theme,
          patterns = JArr (map patternJson blockPatterns),
          templateFront = JStr front\<rparr>)\<close>

definition generateDeterministicTheme :: "(string \<Rightarrow> string) \<Rightarrow> Project \<Rightarrow> GeneratedTheme" where
  "generateDeterministicTheme toUpperCase project = generateWordPressTheme toUpperCase project"

section \<open>Merging an outside response\<close>

datatype js_error = TypeError | SyntaxError | NoJsonFound

fun truthy :: "json \<Rightarrow> bool" where
  "truthy JNull \<longleftrightarrow> False"
| "truthy (JBool b) \<longleftrightarrow> b"
| "truthy (JNum x) \<longleftrightarrow> x \<noteq> 0"
| "truthy (JStr s) \<longleftrightarrow> s \<noteq> []"
| "truthy (JArr xs) \<longleftrightarrow> True"
| "truthy (JObj kvs) \<longleftrightarrow> True"

text \<open>
  Reading the property \<open>k\<close> of a value that is not \<^verbatim>\<open>null\<close>; \<open>None\<close> is
  \<^verbatim>\<open>undefined\<close>. The names read in this section are \<^verbatim>\<open>theme_json\<close>,
  \<^verbatim>\<open>settings\<close>, \<^verbatim>\<open>color\<close>, \<^verbatim>\<open>palette\<close>, \<^verbatim>\<open>slug\<close>,
  \<^verbatim>\<open>patterns\<close> and \<^verbatim>\<open>template_front\<close>: no number, boolean, string, array or
  prototype has a property of one of these names.
\<close>

definition getProp :: "json \<Rightarrow> string \<Rightarrow> json option" where
  "getProp v k = (case v of JObj kvs \<Rightarrow> map_of kvs k | _ \<Rightarrow> None)"

text \<open>\<^verbatim>\<open>v?.k\<close>, where \<open>v\<close> may be \<^verbatim>\<open>undefined\<close> or \<^verbatim>\<open>null\<close>.\<close>

definition optChain :: "json option \<Rightarrow> string \<Rightarrow> json option" where
  "optChain v k = (case v of None \<Rightarrow> None | Some x \<Rightarrow> getProp x k)"

text \<open>\<^verbatim>\<open>v || dflt\<close>.\<close>

definition orElse :: "json option \<Rightarrow> json \<Rightarrow> json" where
  "orElse v dflt = (case v of None \<Rightarrow> dflt | Some x \<Rightarrow> if truthy x then x else dflt)"

definition lockedColorsOf :: "Project \<Rightarrow> ColorToken list" where
  "lockedColorsOf project =
     (case Option.bind (brand project) palette of
        None \<Rightarrow> []
      | Some pal \<Rightarrow> filter isLocked pal)"

text \<open>
  \<^verbatim>\<open>aiPalette.findIndex((p) => p.slug === s)\<close>: \<open>None\<close> is the result \<^verbatim>\<open>-1\<close>, and
  reading \<^verbatim>\<open>p.slug\<close> on a \<^verbatim>\<open>null\<close> entry throws.
\<close>

fun findIndexSlug :: "string \<Rightarrow> json list \<Rightarrow> js_error + nat option" where
  "findIndexSlug s [] = Inr None"
| "findIndexSlug s (p # ps) =
     (if p = JNull then Inl TypeError
      else if getProp p ''slug'' = Some (JStr s) then Inr (Some 0)
      else case findIndexSlug s ps of
        Inl e \<Rightarrow> Inl e
      | Inr None \<Rightarrow> Inr None
      | Inr (Some i) \<Rightarrow> Inr (Some (Suc i)))"

text \<open>
  The assignment \<^verbatim>\<open>o[k] = v\<close> on the properties of an object: an existing property
  keeps its place, a new one goes to the end.
\<close>

fun assignProp :: "string \<Rightarrow> json \<Rightarrow> (string \<times> json) list \<Rightarrow> (string \<times> json) list" where
  "assignProp k v [] = [(k, v)]"
| "assignProp k v ((k', v') # kvs) =
     (if k' = k then (k, v) # kvs else (k', v') # assignProp k v kvs)"

definition assignColor :: "json \<Rightarrow> string \<Rightarrow> json" where
  "assignColor p c = (case p of JObj kvs \<Rightarrow> JObj (assignProp ''color'' (JStr c) kvs) | _ \<Rightarrow> p)"

text \<open>The \<^verbatim>\<open>forEach\<close> over the locked colours, on the entries of the response's palette.\<close>

fun mergeLocked :: "ColorToken list \<Rightarrow> json list \<Rightarrow> js_error + json list" where
  "mergeLocked [] aiPalette = Inr aiPalette"
| "mergeLocked (lockedToken # rest) aiPalette =
     (case findIndexSlug (slug lockedToken) aiPalette of
        Inl e \<Rightarrow> Inl e
      | Inr None \<Rightarrow> mergeLocked rest aiPalette
      | Inr (Some existingIndex) \<Rightarrow>
          mergeLocked rest
            (aiPalette[existingIndex := assignColor (aiPalette ! existingIndex) (color lockedToken)]))"

text \<open>
  The source writes into the palette array in place. The array is reached from the response
  along \<^verbatim>\<open>theme_json.settings.color.palette\<close> only, so the write is seen there:
  \<open>withPalette\<close> puts the written array back at the end of that path.
\<close>

definition mapProp :: "string \<Rightarrow> (json \<Rightarrow> json) \<Rightarrow> json \<Rightarrow> json" where
  "mapProp k f v =
     (case v of
        JObj kvs \<Rightarrow> (case map_of kvs k of None \<Rightarrow> v | Some x \<Rightarrow> JObj (assignProp k (f x) kvs))
      | _ \<Rightarrow> v)"

definition withPalette :: "json list \<Rightarrow> json \<Rightarrow> json" where
  "withPalette aiPalette theme_json =
     mapProp ''settings'' (mapProp ''color'' (mapProp ''palette'' (\<lambda>_. JArr aiPalette))) theme_json"

definition palettePath :: "json option \<Rightarrow> json option" where
  "palettePath theme_json = optChain (optChain (optChain theme_json ''settings'') ''color'') ''palette''"

definition mergeWithLockedColors :: "json \<Rightarrow> Project \<Rightarrow> js_error + GeneratedTheme" where
  "mergeWithLockedColors aiTheme project =
     (let lockedColors = lockedColorsOf project in
      if aiTheme = JNull then Inl TypeError
      else
        (let theme_json = getProp aiTheme ''theme_json'';
             merged =
               (case palettePath theme_json of
                  None \<Rightarrow> Inr theme_json
                | Some aiPalette \<Rightarrow>
                    if truthy aiPalette \<and> length lockedColors > 0 then
                      (case aiPalette of
                         JArr entries \<Rightarrow>
                           (case mergeLocked lockedColors entries of
                              Inl e \<Rightarrow> Inl e
                            | Inr entries' \<Rightarrow> Inr (map_option (withPalette entries') theme_json))
                       | _ \<Rightarrow> Inl TypeError)
                    else Inr theme_json)
         in case merged of
              Inl e \<Rightarrow> Inl e
            | Inr theme_json' \<Rightarrow>
                Inr \<lparr>themeJson = orElse theme_json' (JObj []),
                     patterns = orElse (getProp aiTheme ''patterns'') (JArr []),
                     templateFront = orElse (getProp aiTheme ''template_front'') (JStr [])\<rparr>))"

text \<open>
  \<^verbatim>\<open>response.match(/\{[\s\S]*\}/)\<close>: the text from the first opening brace to the last
  closing brace after it, \<open>None\<close> when there is no such pair.
\<close>

definition jsonMatch :: "string \<Rightarrow> string option" where
  "jsonMatch response =
     (let fromBrace = dropWhile (\<lambda>c. c \<noteq> CHR ''{'') response in
      if fromBrace \<noteq> [] \<and> CHR ''}'' \<in> set (tl fromBrace)
      then Some (rev (dropWhile (\<lambda>c. c \<noteq> CHR ''}'') (rev fromBrace)))
      else None)"

text \<open>
  The body of the \<^verbatim>\<open>try\<close> block of \<^verbatim>\<open>parseAIResponse\<close>. \<^verbatim>\<open>JSON.parse\<close> belongs to
  the runtime and is the argument \<open>JSON_parse\<close>, \<open>None\<close> when it throws a
  \<^verbatim>\<open>SyntaxError\<close>.
\<close>

definition parseAIResponseTry ::
  "(string \<Rightarrow> json option) \<Rightarrow> string \<Rightarrow> Project \<Rightarrow> js_error + GeneratedTheme" where
  "parseAIResponseTry JSON_parse response project =
     (case jsonMatch response of
        None \<Rightarrow> Inl NoJsonFound
      | Some matched \<Rightarrow>
          (case JSON_parse matched of
             None \<Rightarrow> Inl SyntaxError
           | Some parsed \<Rightarrow> mergeWithLockedColors parsed project))"

definition parseAIResponse ::
  "(string \<Rightarrow> string) \<Rightarrow> (string \<Rightarrow> json option) \<Rightarrow> string \<Rightarrow> Project
   \<Rightarrow> GeneratedTheme" where
  "parseAIResponse toUpperCase JSON_parse response project =
     (case parseAIResponseTry JSON_parse response project of
        Inl e \<Rightarrow> generateDeterministicTheme toUpperCase project
      | Inr mergedTheme \<Rightarrow> mergedTheme)"

section \<open>Reference definitions and sample inputs\<close>

text \<open>
  The reference that section 4.7 of the specification gives to a section name, in the
  specification's words: a template part for \<^verbatim>\<open>header\<close> and \<^verbatim>\<open>footer\<close>, a pattern
  reference with the name as its slug for every other name.
\<close>

definition specSectionReference :: "string \<Rightarrow> string" where
  \<open>specSectionReference section =
     (if section = ''header'' \<or> section = ''footer''
      then ''<!-- wp:template-part {"slug":"'' @ section @ ''","area":"'' @ section @ ''"} /-->''
      else ''<!-- wp:pattern {"slug":"'' @ section @ ''"} /-->'')\<close>

text \<open>
  The inputs of the examples: the palette of the specification's end-to-end scenario with
  the \<^verbatim>\<open>text\<close> colour locked, and a locked \<^verbatim>\<open>accent\<close> colour; a project with this
  palette; a response whose palette proposes another colour for \<^verbatim>\<open>text\<close>, has no
  entry for \<^verbatim>\<open>accent\<close> and has one more entry, \<^verbatim>\<open>extra\<close>; and what the merge
  makes of this response.
\<close>

definition samplePalette :: "ColorToken list" where
  "samplePalette =
     [\<lparr>slug = ''primary'', color = ''#3b82f6'', locked = Some False, source = Some User\<rparr>,
      \<lparr>slug = ''background'', color = ''#ffffff'', locked = Some False, source = Some User\<rparr>,
      \<lparr>slug = ''text'', color = ''#ffffff'', locked = Some True, source = Some User\<rparr>,
      \<lparr>slug = ''accent'', color = ''#f59e0b'', locked = Some True, source = None\<rparr>]"

definition sampleProject :: Project where
  "sampleProject =
     \<lparr>name = ''Acme'',
      brand = Some \<lparr>primary = Some ''#3b82f6'', palette = Some samplePalette,
                    headingFont = None, bodyFont = None\<rparr>,
      assets = None, content = None, layout = None\<rparr>"










text \<open>
  A response whose palette is a string, and what \<^verbatim>\<open>JSON.parse\<close> returns on the three
  texts that the examples give it: the empty object on \<^verbatim>\<open>{}\<close>, the object with the
  string palette on \<open>stringPaletteText\<close>, and a \<^verbatim>\<open>SyntaxError\<close> on \<^verbatim>\<open>{oops}\<close>.
  \<open>JSON_parse_sample\<close> stands for the parser on these three texts only.
\<close>

definition stringPaletteText :: string where
  \<open>stringPaletteText = ''{"theme_json":{"settings":{"color":{"palette":"blue"}}}}''\<close>

definition stringPaletteOverride :: json where
  "stringPaletteOverride =
     JObj [(''theme_json'',
            JObj [(''settings'', JObj [(''color'', JObj [(''palette'', JStr ''blue'')])])])]"

definition JSON_parse_sample :: "string \<Rightarrow> json option" where
  "JSON_parse_sample matched =
     (if matched = ''{}'' then Some (JObj [])
      else if matched = stringPaletteText then Some stringPaletteOverride
      else None)"

section \<open>Properties of the colour arithmetic\<close>

lemma hexToRgb_black: "hexToRgb ''#000000'' = Some (RGB 0 0 0)"
  by (simp add: hexToRgb_def isHexDigit_def parseInt16_def hexValue_def)

lemma hexToRgb_white: "hexToRgb ''#ffffff'' = Some (RGB 255 255 255)"
  by (simp add: hexToRgb_def isHexDigit_def parseInt16_def hexValue_def)

lemma hexToRgb_red: "hexToRgb ''#ff0000'' = Some (RGB 255 0 0)"
  by (simp add: hexToRgb_def isHexDigit_def parseInt16_def hexValue_def)

lemma channelLuminance_0: "channelLuminance 0 = 0"
  by (simp add: channelLuminance_def)

lemma channelLuminance_255: "channelLuminance 255 = 1"
  by (simp add: channelLuminance_def)

lemma channelLuminance_nonneg: "0 \<le> channelLuminance c"
  by (simp add: channelLuminance_def Let_def)

lemma getLuminance_black: "getLuminance ''#000000'' = 0"
  by (simp add: getLuminance_def hexToRgb_black channelLuminance_0)

lemma getLuminance_white: "getLuminance ''#ffffff'' = 1"
  by (simp add: getLuminance_def hexToRgb_white channelLuminance_255)

lemma getLuminance_red: "getLuminance ''#ff0000'' = 0.2126"
  by (simp add: getLuminance_def hexToRgb_red channelLuminance_255 channelLuminance_0)

lemma getLuminance_nonneg: "0 \<le> getLuminance hex"
  by (auto simp add: getLuminance_def channelLuminance_nonneg split: option.splits rgb.splits)

text \<open>
  Claim C8. A colour whose contrast ratio against the background is at least 4.5 is
  returned as it is by \<open>adjustLightnessForContrast\<close> with the target ratio 4.5.
\<close>

theorem adjust_compliant_unchanged:
  "getContrastRatio col background \<ge> 4.5 \<Longrightarrow>
   adjustLightnessForContrast col background 4.5 = col"
  by (simp add: adjustLightnessForContrast_def)

theorem adjust_compliant_unchanged_witness:
  "getContrastRatio ''#000000'' ''#ffffff'' \<ge> 4.5
   \<and> adjustLightnessForContrast ''#000000'' ''#ffffff'' 4.5 = ''#000000''"
proof -
  have h: "getContrastRatio ''#000000'' ''#ffffff'' \<ge> 4.5"
    by (simp add: getContrastRatio_def getLuminance_black getLuminance_white)
  show ?thesis
    using h adjust_compliant_unchanged [OF h] by simp
qed

lemma below_16_cases:
  "d < 16 \<Longrightarrow> d \<in> {0, 1, 2, 3, 4, 5, 6, 7, 8, 9, 10, 11, 12, 13, 14, 15::nat}"
  by (simp only: insert_iff empty_iff) arith

lemma hexValue_hexChar: "d < 16 \<Longrightarrow> hexValue (hexChar d) = d"
  by (drule below_16_cases) (auto simp add: hexValue_def hexChar_def lowerHexDigits_def)

lemma isHexDigit_hexChar: "d < 16 \<Longrightarrow> isHexDigit (hexChar d)"
  by (drule below_16_cases) (auto simp add: isHexDigit_def hexChar_def lowerHexDigits_def)


lemma natToString16_byte:
  assumes "n < 256"
  shows "(if length (natToString16 n) = 1 then CHR ''0'' # natToString16 n else natToString16 n)
         = [hexChar (n div 16), hexChar (n mod 16)]"
proof (cases "n < 16")
  case True
  then show ?thesis
    by (simp add: natToString16.simps [of n] hexChar_def lowerHexDigits_def)
next
  case False
  moreover have "n div 16 < 16"
    using assms by simp
  ultimately show ?thesis
    by (simp add: natToString16.simps [of n] natToString16.simps [of "n div 16"])
qed

lemma channelHex_byte:
  assumes "0 \<le> mathRound x" "mathRound x \<le> 255"
  shows "channelHex x = [hexChar (nat (mathRound x) div 16), hexChar (nat (mathRound x) mod 16)]"
proof -
  have "nat (mathRound x) < 256"
    using assms by simp
  from natToString16_byte [OF this] show ?thesis
    using assms by (simp add: channelHex_def toString16_def Let_def)
qed

lemma parseInt16_pair:
  "a < 16 \<Longrightarrow> b < 16 \<Longrightarrow> parseInt16 [hexChar a, hexChar b] = 16 * a + b"
  by (simp add: parseInt16_def hexValue_hexChar)




text \<open>
  The colour that \<open>rgbToHex\<close> writes for three channels between 0 and 255 is read back by
  \<open>hexToRgb\<close> as these channels.
\<close>

lemma hexToRgb_rgbToHex:
  assumes "0 \<le> mathRound r \<and> mathRound r \<le> 255"
    and "0 \<le> mathRound g \<and> mathRound g \<le> 255"
    and "0 \<le> mathRound b \<and> mathRound b \<le> 255"
  shows "hexToRgb (rgbToHex r g b)
         = Some (RGB (nat (mathRound r)) (nat (mathRound g)) (nat (mathRound b)))"
proof -
  define R G B where "R = nat (mathRound r)" and "G = nat (mathRound g)" and "B = nat (mathRound b)"
  have "R < 256" "G < 256" "B < 256"
    using assms by (auto simp add: R_def G_def B_def)
  then have digits: "R div 16 < 16" "R mod 16 < 16" "G div 16 < 16" "G mod 16 < 16"
    "B div 16 < 16" "B mod 16 < 16"
    by simp_all
  have "rgbToHex r g b =
      [CHR ''#'', hexChar (R div 16), hexChar (R mod 16), hexChar (G div 16), hexChar (G mod 16),
       hexChar (B div 16), hexChar (B mod 16)]"
    using assms by (simp add: rgbToHex_def channelHex_byte R_def G_def B_def)
  then have "hexToRgb (rgbToHex r g b) = Some (RGB R G B)"
    using digits by (simp add: hexToRgb_def isHexDigit_hexChar parseInt16_pair)
  then show ?thesis
    by (simp add: R_def G_def B_def)
qed

lemma mathRound_of_int: "mathRound (of_int n) = n"
  by (simp add: mathRound_def)

text \<open>
  A channel between 26 and 255 has a luminance above 0.0084 and at most 1, and so has a
  colour of three such channels. Against \<^verbatim>\<open>#ff0000\<close>, of luminance 0.2126, such a
  colour stays below the ratio 4.5.
\<close>

lemma powr_lower: "0.0084 < (0.148::real) powr 2.4"
proof (rule ccontr)
  assume "\<not> 0.0084 < (0.148::real) powr 2.4"
  then have "(0.148::real) powr 2.4 \<le> 0.0084"
    by simp
  then have "((0.148::real) powr 2.4) powr 5 \<le> 0.0084 powr 5"
    by (intro powr_mono2) simp_all
  then have "(0.148::real) powr 12 \<le> 0.0084 powr 5"
    by (simp add: powr_powr)
  then have "(0.148::real) ^ 12 \<le> 0.0084 ^ 5"
    by (simp add: powr_numeral)
  moreover have "(0.0084::real) ^ 5 < 0.148 ^ 12"
    by (simp add: power_divide)
  ultimately show False
    by linarith
qed

lemma channelLuminance_bounds:
  assumes "26 \<le> c" "c \<le> 255"
  shows "0.0084 < channelLuminance c \<and> channelLuminance c \<le> 1"
proof -
  let ?x = "(real c / 255 + 0.055) / 1.055"
  have big: "\<not> real c / 255 \<le> 0.03928"
    using assms by simp
  have lo: "0.148 \<le> ?x"
    using assms by simp
  have hi: "?x \<le> 1"
    using assms by simp
  have "(0.148::real) powr 2.4 \<le> ?x powr 2.4"
    using lo by (intro powr_mono2) simp_all
  moreover have "?x powr 2.4 \<le> 1 powr 2.4"
    using lo hi by (intro powr_mono2) simp_all
  ultimately show ?thesis
    using powr_lower big by (simp add: channelLuminance_def)
qed

lemma candidate_luminance:
  assumes "26 \<le> R" "R \<le> 255" "26 \<le> G" "G \<le> 255" "26 \<le> B" "B \<le> 255"
  shows "0.0084 < getLuminance (rgbToHex (of_int R) (of_int G) (of_int B))
         \<and> getLuminance (rgbToHex (of_int R) (of_int G) (of_int B)) \<le> 1"
proof -
  have parsed: "hexToRgb (rgbToHex (of_int R) (of_int G) (of_int B))
                = Some (RGB (nat R) (nat G) (nat B))"
    using assms hexToRgb_rgbToHex [of "of_int R" "of_int G" "of_int B"]
    by (simp add: mathRound_of_int)
  have r: "0.0084 < channelLuminance (nat R) \<and> channelLuminance (nat R) \<le> 1"
    using assms by (intro channelLuminance_bounds) simp_all
  have g: "0.0084 < channelLuminance (nat G) \<and> channelLuminance (nat G) \<le> 1"
    using assms by (intro channelLuminance_bounds) simp_all
  have b: "0.0084 < channelLuminance (nat B) \<and> channelLuminance (nat B) \<le> 1"
    using assms by (intro channelLuminance_bounds) simp_all
  show ?thesis
    using r g b by (simp add: getLuminance_def parsed)
qed

lemma contrast_on_red:
  assumes "0.0084 < getLuminance c" "getLuminance c \<le> 1"
  shows "getContrastRatio c ''#ff0000'' < 4.5"
proof (cases "getLuminance c \<le> 0.2126")
  case True
  then have "getContrastRatio c ''#ff0000'' = 0.2626 / (getLuminance c + 0.05)"
    by (simp add: getContrastRatio_def getLuminance_red Let_def max_def min_def)
  also have "\<dots> < 4.5"
    using assms(1) by (simp add: divide_less_eq)
  finally show ?thesis .
next
  case False
  then have "getContrastRatio c ''#ff0000'' = (getLuminance c + 0.05) / 0.2626"
    by (simp add: getContrastRatio_def getLuminance_red Let_def max_def min_def)
  also have "\<dots> < 4.5"
    using assms(2) by simp
  finally show ?thesis .
qed

text \<open>
  From white both loops fail against \<^verbatim>\<open>#ff0000\<close> at the target 4.5: the darker loop
  tries the greys from \<^verbatim>\<open>#e6e6e6\<close> down to \<^verbatim>\<open>#1a1a1a\<close>, whose channels lie
  between 26 and 255, and the lighter loop tries white again.
\<close>

lemma darkerLoop_white_on_red:
  "factor \<le> 1 \<Longrightarrow> darkerLoop 255 255 255 ''#ff0000'' 4.5 factor = None"
proof (induction "255::nat" "255::nat" "255::nat" "''#ff0000''" "4.5::real" factor
    rule: darkerLoop.induct)
  case (1 factor)
  show ?case
  proof (cases "factor \<ge> 0.1")
    case False
    then show ?thesis
      by (subst darkerLoop.simps) simp
  next
    case True
    let ?n = "mathRound (255 * factor)"
    have n: "26 \<le> ?n" "?n \<le> 255"
      using True "1.prems" by (simp_all add: mathRound_def le_floor_iff floor_le_iff)
    have low: "\<not> 4.5 \<le> getContrastRatio (rgbToHex (of_int ?n) (of_int ?n) (of_int ?n)) ''#ff0000''"
      using contrast_on_red candidate_luminance [OF n n n] by (simp add: not_le)
    have "darkerLoop 255 255 255 ''#ff0000'' 4.5 (factor - 0.1) = None"
      using "1.hyps" True low "1.prems" by (simp add: Let_def)
    then show ?thesis
      using True low by (subst darkerLoop.simps) (simp add: Let_def)
  qed
qed

lemma rgbToHex_white: "rgbToHex 255 255 255 = ''#ffffff''"
  by (simp add: rgbToHex_def channelHex_def toString16_def mathRound_def hexChar_def
      lowerHexDigits_def natToString16.simps [of 255] natToString16.simps [of 15])

lemma white_on_red: "getContrastRatio ''#ffffff'' ''#ff0000'' < 4"
  by (simp add: getContrastRatio_def getLuminance_white getLuminance_red)

lemma lighterLoop_white_on_red:
  "1 \<le> factor \<Longrightarrow> lighterLoop 255 255 255 ''#ff0000'' 4.5 factor = None"
proof (induction "255::nat" "255::nat" "255::nat" "''#ff0000''" "4.5::real" factor
    rule: lighterLoop.induct)
  case (1 factor)
  show ?case
  proof (cases "factor < 3")
    case False
    then show ?thesis
      by (subst lighterLoop.simps) simp
  next
    case True
    have "255 \<le> mathRound (255 * factor)"
      using "1.prems" by (simp add: mathRound_def le_floor_iff)
    then have n: "min 255 (mathRound (255 * factor)) = 255"
      by simp
    have low: "\<not> 4.5 \<le> getContrastRatio ''#ffffff'' ''#ff0000''"
      using white_on_red by simp
    have "lighterLoop 255 255 255 ''#ff0000'' 4.5 (factor + 0.1) = None"
      using "1.hyps" True low "1.prems" n by (simp add: Let_def rgbToHex_white)
    then show ?thesis
      using True low n by (subst lighterLoop.simps) (simp add: Let_def rgbToHex_white)
  qed
qed

text \<open>
  Claim C2, at the input where the code departs from it. White on the background
  \<^verbatim>\<open>#ff0000\<close> with the target ratio 4.5, the one that \<open>validateAndFixContrasts\<close>
  passes: no candidate of the two loops reaches 4.5, and the fallback, chosen by comparing
  the luminance of the background with 0.5, is white again, whose ratio against this
  background is below 4.5. Black reaches the target there.
\<close>

theorem adjust_white_on_red:
  "adjustLightnessForContrast ''#ffffff'' ''#ff0000'' 4.5 = ''#ffffff''
   \<and> getContrastRatio (adjustLightnessForContrast ''#ffffff'' ''#ff0000'' 4.5) ''#ff0000'' < 4.5
   \<and> getContrastRatio ''#000000'' ''#ff0000'' \<ge> 4.5"
proof -
  have darker: "darkerLoop 255 255 255 ''#ff0000'' 4.5 0.9 = None"
    by (rule darkerLoop_white_on_red) simp
  have lighter: "lighterLoop 255 255 255 ''#ff0000'' 4.5 1.1 = None"
    by (rule lighterLoop_white_on_red) simp
  have res: "adjustLightnessForContrast ''#ffffff'' ''#ff0000'' 4.5 = ''#ffffff''"
    using white_on_red darker lighter
    by (simp add: adjustLightnessForContrast_def hexToRgb_white getLuminance_red)
  have black: "getContrastRatio ''#000000'' ''#ff0000'' \<ge> 4.5"
    by (simp add: getContrastRatio_def getLuminance_black getLuminance_red)
  show ?thesis
    using res white_on_red black by simp
qed

section \<open>Properties of the patterns and of the front-page template\<close>

lemma includesStr_here: "includesStr (sub @ rest) sub"
proof (cases "sub @ rest")
  case Nil
  then show ?thesis
    by simp
next
  case (Cons c cs)
  have "take (length sub) (c # cs) = sub"
    unfolding Cons [symmetric] by simp
  then show ?thesis
    unfolding Cons by simp
qed

lemma includesStr_append: "includesStr (before @ sub @ rest) sub"
proof (induction before)
  case Nil
  show ?case
    using includesStr_here by simp
next
  case (Cons c before)
  then show ?case
    by simp
qed

lemma includesStr_iff: "includesStr s sub \<longleftrightarrow> (\<exists>before rest. s = before @ sub @ rest)"
proof
  show "includesStr s sub \<Longrightarrow> \<exists>before rest. s = before @ sub @ rest"
  proof (induction s)
    case Nil
    then show ?case
      by simp
  next
    case (Cons c cs)
    show ?case
    proof (cases "take (length sub) (c # cs) = sub")
      case True
      then have "c # cs = [] @ sub @ drop (length sub) (c # cs)"
        by (metis append_Nil append_take_drop_id)
      then show ?thesis
        by blast
    next
      case False
      then have "includesStr cs sub"
        using Cons.prems by simp
      then obtain before rest where "cs = before @ sub @ rest"
        using Cons.IH by blast
      then have "c # cs = (c # before) @ sub @ rest"
        by simp
      then show ?thesis
        by blast
    qed
  qed
next
  show "\<exists>before rest. s = before @ sub @ rest \<Longrightarrow> includesStr s sub"
    using includesStr_append by blast
qed

lemma includesStr_within:
  assumes "includesStr s sub"
  shows "includesStr (before @ s @ rest) sub"
proof -
  obtain u v where "s = u @ sub @ v"
    using assms includesStr_iff by blast
  then have "before @ s @ rest = (before @ u) @ sub @ (v @ rest)"
    by simp
  then show ?thesis
    using includesStr_append by metis
qed

lemma includesStr_trans:
  assumes "includesStr s t" "includesStr t sub"
  shows "includesStr s sub"
proof -
  obtain u v where "s = u @ t @ v"
    using assms(1) includesStr_iff by blast
  then show ?thesis
    using includesStr_within [OF assms(2)] by simp
qed

lemma joinWith_includes:
  "x \<in> set xs \<Longrightarrow> includesStr x sub \<Longrightarrow> includesStr (joinWith sep xs) sub"
proof (induction sep xs rule: joinWith.induct)
  case (1 sep)
  then show ?case
    by simp
next
  case (2 sep y)
  then show ?case
    by simp
next
  case (3 sep y z zs)
  show ?case
  proof (cases "x = y")
    case True
    then show ?thesis
      using includesStr_within [OF "3.prems"(2), of "[]" "sep @ joinWith sep (z # zs)"] by simp
  next
    case False
    then have "includesStr (joinWith sep (z # zs)) sub"
      using 3 by simp
    then show ?thesis
      using includesStr_within [of "joinWith sep (z # zs)" sub "y @ sep" "[]"] by simp
  qed
qed

lemma concat_includes:
  assumes "x \<in> set xs"
  shows "includesStr (concat xs) x"
proof -
  obtain ys zs where "xs = ys @ x # zs"
    using assms split_list by fastforce
  then have "concat xs = concat ys @ x @ concat zs"
    by simp
  then show ?thesis
    using includesStr_append by metis
qed

lemma benefitColumn_title: "includesStr (benefitColumn b) (title b)"
  unfolding benefitColumn_def
proof (rule joinWith_includes)
  show "includesStr (''      <h3 class=\"has-text-align-center\">'' @ title b @ ''</h3>'') (title b)"
    by (rule includesStr_append)
qed simp

lemma benefitsHtml_title:
  assumes "b \<in> set (take 3 benefitList)"
  shows "includesStr (benefitsHtml benefitList) (title b)"
proof -
  have "includesStr (concat (map benefitColumn (take 3 benefitList))) (benefitColumn b)"
    using assms by (intro concat_includes) simp
  then have "includesStr (''    '' @ concat (map benefitColumn (take 3 benefitList))) (title b)"
    using includesStr_trans [OF _ benefitColumn_title]
      includesStr_within [of _ _ "''    ''" "[]"] by simp
  then show ?thesis
    unfolding benefitsHtml_def
    by (intro joinWith_includes
        [where x = "''    '' @ concat (map benefitColumn (take 3 benefitList))"]) simp_all
qed

lemma default_benefits_titles:
  "includesStr (benefitsHtml defaultBenefits) ''Fast Performance''
   \<and> includesStr (benefitsHtml defaultBenefits) ''Mobile First''
   \<and> includesStr (benefitsHtml defaultBenefits) ''SEO Ready''"
  using benefitsHtml_title [of "\<lparr>title = ''Fast Performance'', description = ''Optimized for speed and conversion''\<rparr>" defaultBenefits]
    benefitsHtml_title [of "\<lparr>title = ''Mobile First'', description = ''Responsive design that works everywhere''\<rparr>" defaultBenefits]
    benefitsHtml_title [of "\<lparr>title = ''SEO Ready'', description = ''Built with search engines in mind''\<rparr>" defaultBenefits]
  by (simp add: defaultBenefits_def)

text \<open>
  When \<^verbatim>\<open>content.benefits\<close> is missing, the benefits pattern is built from the three
  default benefits and its HTML holds their titles.
\<close>

lemma benefits_unset_default:
  assumes "Option.bind (content project) benefits = None"
  shows "html (generateBlockPatterns project pal ! 2) = benefitsHtml defaultBenefits"
  using assms by (simp add: generateBlockPatterns_def Let_def orDefaultList_def)

text \<open>
  Claim C5, at the input where the code departs from it. With \<^verbatim>\<open>content.benefits\<close>
  the empty list, \<^verbatim>\<open>project.content?.benefits || [...]\<close> keeps the empty list, which
  is truthy: the benefits pattern has no column and its HTML holds none of the three
  default titles.
\<close>

theorem benefits_empty_no_default:
  "html (generateBlockPatterns
     \<lparr>name = ''Acme'', brand = None, assets = None,
      content = Some \<lparr>headline = None, benefits = Some [], cta = None, contact = None\<rparr>,
      layout = None\<rparr> [] ! 2) = benefitsHtml []
   \<and> \<not> includesStr (benefitsHtml []) ''Fast Performance''
   \<and> \<not> includesStr (benefitsHtml []) ''Mobile First''
   \<and> \<not> includesStr (benefitsHtml []) ''SEO Ready''"
  by (simp add: generateBlockPatterns_def Let_def orDefaultList_def benefitsHtml_def newline_def)

text \<open>
  When \<^verbatim>\<open>layout.sections\<close> is missing, the front-page template is built from the
  default section order.
\<close>

lemma sections_unset_default:
  assumes "Option.bind (layout project) sections = None"
  shows "templateFront (generateWordPressTheme toUpperCase project)
         = JStr (generateFrontPageTemplate
                   [''header'', ''hero'', ''benefits'', ''about'', ''contact'', ''footer''])"
  using assms by (simp add: generateWordPressTheme_def Let_def orDefaultList_def)

text \<open>
  Claim C6, at the input where the code departs from it. With \<^verbatim>\<open>layout.sections\<close>
  the empty list, \<^verbatim>\<open>project.layout?.sections || [...]\<close> keeps the empty list: the
  front-page template is the empty string, not the template of the default order.
\<close>

theorem sections_empty_no_default:
  "templateFront (generateWordPressTheme toUpperCase
     \<lparr>name = ''Acme'', brand = None, assets = None, content = None,
      layout = Some \<lparr>sections = Some []\<rparr>\<rparr>) = JStr []
   \<and> JStr (generateFrontPageTemplate
             [''header'', ''hero'', ''benefits'', ''about'', ''contact'', ''footer'']) \<noteq> JStr []"
  by (simp add: generateWordPressTheme_def Let_def orDefaultList_def
      generateFrontPageTemplate_def sectionReference_def sectionMap_def)

text \<open>
  For names that \<^verbatim>\<open>Object.prototype\<close> does not have, the template is what the
  specification describes: one reference for each name, in the order of the input, joined
  by newlines.
\<close>

lemma sectionReference_own:
  assumes "section \<notin> fst ` set objectPrototype"
  shows "sectionReference section = specSectionReference section"
proof -
  have "map_of objectPrototype section = None"
    using assms by (simp add: map_of_eq_None_iff)
  then show ?thesis
    by (simp add: sectionReference_def sectionMap_def specSectionReference_def)
qed

lemma front_page_template_own_names:
  assumes "\<forall>section \<in> set sectionNames. section \<notin> fst ` set objectPrototype"
  shows "generateFrontPageTemplate sectionNames = joinWith newline (map specSectionReference sectionNames)"
proof -
  have "map sectionReference sectionNames = map specSectionReference sectionNames"
    using assms by (simp add: sectionReference_own)
  then show ?thesis
    by (simp only: generateFrontPageTemplate_def)
qed

text \<open>
  Claim C9, at the input where the code departs from it. The name \<^verbatim>\<open>constructor\<close>
  is not a key of \<^verbatim>\<open>sectionMap\<close>, but \<^verbatim>\<open>sectionMap["constructor"]\<close> is the
  inherited function \<^verbatim>\<open>Object\<close>, which is truthy: the fallback is not taken and the
  template holds the text of that function instead of a pattern reference.
\<close>

theorem front_page_template_inherited_name:
  \<open>generateFrontPageTemplate [''constructor''] = ''function Object() { [native code] }''
   \<and> generateFrontPageTemplate [''constructor''] \<noteq> ''<!-- wp:pattern {"slug":"constructor"} /-->''\<close>
  by (simp add: generateFrontPageTemplate_def sectionReference_def sectionMap_def
      objectPrototype_def)

lemma footerHtml_line:
  "includesStr (footerHtml projectName)
     ([CHR 0xA9] @ '' 2024 '' @ projectName @ ''. All rights reserved.'')"
  unfolding footerHtml_def
proof (rule joinWith_includes)
  show "includesStr
          (''  <p class=\"has-text-align-center\">''
           @ ([CHR 0xA9] @ '' 2024 '' @ projectName @ ''. All rights reserved.'') @ ''</p>'')
          ([CHR 0xA9] @ '' 2024 '' @ projectName @ ''. All rights reserved.'')"
    by (rule includesStr_append)
qed simp

text \<open>
  Claim C10, as the code has it. The footer pattern is the sixth pattern; its HTML is built
  from the name of the project alone and holds the copyright line with the literal year
  2024, whatever the year in which the theme is generated.
\<close>

theorem footer_fixed_year:
  "generateBlockPatterns project pal ! 5
     = BlockPattern ''footer'' ''Footer'' (footerHtml (name project))
   \<and> includesStr (footerHtml (name project))
        ([CHR 0xA9] @ '' 2024 '' @ name project @ ''. All rights reserved.'')"
  using footerHtml_line [of "name project"]
  by (simp add: generateBlockPatterns_def Let_def)

text \<open>
  Claim C10 as it is written fails for a theme generated in any year but 2024: the footer
  of the project named Acme does not hold the year 2026.
\<close>

theorem footer_current_year_counterexample:
  "\<not> includesStr
       (html (generateBlockPatterns
          \<lparr>name = ''Acme'', brand = None, assets = None, content = None, layout = None\<rparr> [] ! 5))
       ''2026''"
  by (simp add: generateBlockPatterns_def Let_def footerHtml_def newline_def)

section \<open>Properties of the palette and of the merge\<close>















lemma sample_locked: "lockedColorsOf sampleProject = drop 2 samplePalette"
  by (simp add: lockedColorsOf_def sampleProject_def samplePalette_def isLocked_def)

















text \<open>
  The merge throws when the response's palette is truthy and not an array while a colour is
  locked: \<^verbatim>\<open>findIndex\<close> is not a function of such a value.
\<close>

lemma mergeWithLockedColors_non_array:
  assumes "palettePath (getProp aiTheme ''theme_json'') = Some aiPalette" and "truthy aiPalette"
    and "\<forall>entries. aiPalette \<noteq> JArr entries" and "lockedColorsOf project \<noteq> []"
  shows "mergeWithLockedColors aiTheme project = Inl TypeError"
  using assms by (cases aiPalette) (simp_all add: mergeWithLockedColors_def Let_def)

text \<open>
  The failures that the \<^verbatim>\<open>try\<close> block raises fall back to the deterministic theme: a
  response without brace-delimited text, a text that \<^verbatim>\<open>JSON.parse\<close> rejects, a merge
  that throws.
\<close>

lemma parseAIResponse_falls_back:
  assumes "jsonMatch response = None
           \<or> (\<exists>matched. jsonMatch response = Some matched
                \<and> (JSON_parse matched = None
                    \<or> (\<exists>parsed e. JSON_parse matched = Some parsed
                          \<and> mergeWithLockedColors parsed project = Inl e)))"
  shows "parseAIResponse toUpperCase JSON_parse response project
         = generateDeterministicTheme toUpperCase project"
  using assms by (auto simp add: parseAIResponse_def parseAIResponseTry_def)

lemma parseAIResponse_falls_back_examples:
  "parseAIResponse toUpperCase JSON_parse_sample ''Sorry, no theme today.'' sampleProject
     = generateDeterministicTheme toUpperCase sampleProject
   \<and> parseAIResponse toUpperCase JSON_parse_sample ''Here: {oops}'' sampleProject
       = generateDeterministicTheme toUpperCase sampleProject
   \<and> mergeWithLockedColors stringPaletteOverride sampleProject = Inl TypeError
   \<and> parseAIResponse toUpperCase JSON_parse_sample stringPaletteText sampleProject
       = generateDeterministicTheme toUpperCase sampleProject"
proof -
  have a: "jsonMatch ''Sorry, no theme today.'' = None"
    by (simp add: jsonMatch_def)
  have b: "jsonMatch ''Here: {oops}'' = Some ''{oops}''" "JSON_parse_sample ''{oops}'' = None"
    by (simp_all add: jsonMatch_def JSON_parse_sample_def stringPaletteText_def)
  have c: "jsonMatch stringPaletteText = Some stringPaletteText"
    "JSON_parse_sample stringPaletteText = Some stringPaletteOverride"
    by (simp_all add: jsonMatch_def JSON_parse_sample_def stringPaletteText_def)
  have "palettePath (getProp stringPaletteOverride ''theme_json'') = Some (JStr ''blue'')"
    by (simp add: stringPaletteOverride_def getProp_def palettePath_def optChain_def)
  then have d: "mergeWithLockedColors stringPaletteOverride sampleProject = Inl TypeError"
    by (rule mergeWithLockedColors_non_array) (simp_all add: sample_locked samplePalette_def)
  show ?thesis
    using a b c d
      parseAIResponse_falls_back [of "''Sorry, no theme today.''" JSON_parse_sample sampleProject]
      parseAIResponse_falls_back [of "''Here: {oops}''" JSON_parse_sample sampleProject]
      parseAIResponse_falls_back [of stringPaletteText JSON_parse_sample sampleProject]
    by simp
qed

text \<open>
  Claim C3, at the input where the code departs from it. The response \<^verbatim>\<open>{}\<close> parses
  as JSON and has none of the fields \<^verbatim>\<open>theme_json\<close>, \<^verbatim>\<open>patterns\<close> and
  \<^verbatim>\<open>template_front\<close>. Nothing checks its shape: it is not discarded, and the theme
  that is returned is made of the three defaults \<^verbatim>\<open>{}\<close>, \<^verbatim>\<open>[]\<close> and the empty
  string, not the deterministic theme of the project.
\<close>

theorem parseAIResponse_accepts_empty_object:
  "jsonMatch ''{}'' = Some ''{}''
   \<and> parseAIResponse toUpperCase JSON_parse_sample ''{}'' sampleProject
       = \<lparr>themeJson = JObj [], patterns = JArr [], templateFront = JStr []\<rparr>
   \<and> parseAIResponse toUpperCase JSON_parse_sample ''{}'' sampleProject
       \<noteq> generateDeterministicTheme toUpperCase sampleProject"
proof -
  have m: "jsonMatch ''{}'' = Some ''{}''"
    by (simp add: jsonMatch_def)
  have r: "parseAIResponse toUpperCase JSON_parse_sample ''{}'' sampleProject
           = \<lparr>themeJson = JObj [], patterns = JArr [], templateFront = JStr []\<rparr>"
    by (simp add: parseAIResponse_def parseAIResponseTry_def m JSON_parse_sample_def
        mergeWithLockedColors_def Let_def getProp_def palettePath_def optChain_def orElse_def)
  have "templateFront (generateDeterministicTheme toUpperCase sampleProject) \<noteq> JStr []"
    by (simp add: generateDeterministicTheme_def sections_unset_default sampleProject_def
        generateFrontPageTemplate_def sectionReference_def sectionMap_def)
  then have "generateDeterministicTheme toUpperCase sampleProject
             \<noteq> \<lparr>themeJson = JObj [], patterns = JArr [], templateFront = JStr []\<rparr>"
    by auto
  then show ?thesis
    using m r by simp
qed

end
